theory Spec2Isabelle
  imports Complex_Main "HOL-Library.AList" "HOL-Library.Multiset"
    "HOL-Library.Char_ord" "HOL-Library.List_Lexorder"
begin

section \<open>Python values, dictionaries and exceptions\<close>

text \<open>
  The library moves plain Python values around: \<open>None\<close>, booleans, integers, strings,
  sequences and string-keyed dictionaries.  A dictionary is an association list in
  insertion order; a well-formed one has distinct keys.  Floating-point values play no
  role in the properties below and are left out.
\<close>

datatype val =
    VNone
  | VBool bool
  | VInt int
  | VStr string
  | VList "val list"
  | VDict "(string \<times> val) list"

type_synonym dict = "(string \<times> val) list"

datatype error =
    KeyError
  | AssertionError
  | ZeroDivisionError
  | TypeError
  | IndexError
  | AttributeError
  | ValueError

text \<open>\<open>d.get(k, default)\<close> and \<open>d[k]\<close>.\<close>

definition dict_get :: "dict \<Rightarrow> string \<Rightarrow> val \<Rightarrow> val" where
  "dict_get d k dflt = (case map_of d k of Some v \<Rightarrow> v | None \<Rightarrow> dflt)"

definition dict_getitem :: "dict \<Rightarrow> string \<Rightarrow> error + val" where
  "dict_getitem d k = (case map_of d k of Some v \<Rightarrow> Inr v | None \<Rightarrow> Inl KeyError)"

text \<open>
  \<open>{**a, **b}\<close>: the keys of \<open>a\<close> keep their position, the entries of \<open>b\<close> override
  or are appended, in the order of \<open>b\<close>.
\<close>

definition dict_merge :: "dict \<Rightarrow> dict \<Rightarrow> dict" where
  "dict_merge a b = fold (\<lambda>(k, v). AList.update k v) b a"

text \<open>Python truthiness, as tested by \<open>if val\<close> and \<open>and\<close>.\<close>

fun truthy :: "val \<Rightarrow> bool" where
  "truthy VNone = False"
| "truthy (VBool b) = b"
| "truthy (VInt i) = (i \<noteq> 0)"
| "truthy (VStr s) = (s \<noteq> [])"
| "truthy (VList xs) = (xs \<noteq> [])"
| "truthy (VDict kvs) = (kvs \<noteq> [])"

text \<open>Sequencing of computations that may raise.\<close>

definition ebind :: "error + 'a \<Rightarrow> ('a \<Rightarrow> error + 'b) \<Rightarrow> error + 'b" where
  "ebind m f = (case m of Inl e \<Rightarrow> Inl e | Inr x \<Rightarrow> f x)"

fun emap :: "('a \<Rightarrow> error + 'b) \<Rightarrow> 'a list \<Rightarrow> error + 'b list" where
  "emap f [] = Inr []"
| "emap f (x # xs) =
     (case f x of
        Inl e \<Rightarrow> Inl e
      | Inr y \<Rightarrow> (case emap f xs of Inl e \<Rightarrow> Inl e | Inr ys \<Rightarrow> Inr (y # ys)))"

section \<open>Subplot layout (\<open>get_subplot_config\<close>)\<close>

record subplot_config =
  nrows :: int
  ncols :: int

text \<open>
  \<open>datachart/utils/attrs.py\<close>: the two assertions sit inside the \<open>if subplots\<close>
  branch.  \<open>n_charts / max_cols\<close> is Python's true division followed by
  \<open>math.ceil\<close>; it is taken as the exact quotient (the float quotient of two chart
  counts is far from the range where rounding could move the ceiling).
\<close>

definition get_subplot_config :: "bool \<Rightarrow> int \<Rightarrow> int \<Rightarrow> error + subplot_config" where
  "get_subplot_config subplots n_charts max_cols =
     (if subplots then
        (if \<not> n_charts > 0 then Inl AssertionError
         else if \<not> max_cols > 0 then Inl AssertionError
         else Inr \<lparr>nrows = \<lceil>real_of_int n_charts / real_of_int max_cols\<rceil>,
                   ncols = (if n_charts \<ge> max_cols then max_cols else n_charts mod max_cols)\<rparr>)
      else Inr \<lparr>nrows = 1, ncols = 1\<rparr>)"

text \<open>
  \<open>src/utils/attrs.py\<close>, the older copy: no assertion; the division raises on a
  zero divisor.
\<close>

definition get_subplot_config_src :: "bool \<Rightarrow> int \<Rightarrow> int \<Rightarrow> error + subplot_config" where
  "get_subplot_config_src subplots n_charts max_cols =
     (if subplots then
        (if max_cols = 0 then Inl ZeroDivisionError
         else Inr \<lparr>nrows = \<lceil>real_of_int n_charts / real_of_int max_cols\<rceil>,
                   ncols = (if n_charts \<ge> max_cols then max_cols else n_charts mod max_cols)\<rparr>)
      else Inr \<lparr>nrows = 1, ncols = 1\<rparr>)"

section \<open>Attribute resolution (\<open>get_attr_value\<close>, \<open>create_config_dict\<close>)\<close>

text \<open>
  Modelled from the spec: the class \<open>Config\<close> and its instance \<open>config\<close> are imported
  from a module that is not among the sources.  The spec describes the global
  configuration as a key-value store keyed by dotted paths and queried by exact key, so
  it is a partial map; \<open>config[k]\<close> raises \<open>KeyError\<close> on an absent key as a mapping
  does, and \<open>config.get(k, d)\<close> falls back to \<open>d\<close> (\<open>None\<close> when not given).  The
  global instance is passed to every function that reads it.
\<close>

type_synonym config = "string \<rightharpoonup> val"

definition config_getitem :: "config \<Rightarrow> string \<Rightarrow> error + val" where
  "config_getitem c k = (case c k of Some v \<Rightarrow> Inr v | None \<Rightarrow> Inl KeyError)"

definition config_get :: "config \<Rightarrow> string \<Rightarrow> val \<Rightarrow> val" where
  "config_get c k dflt = (case c k of Some v \<Rightarrow> v | None \<Rightarrow> dflt)"

text \<open>
  The \<open>default\<close> argument of \<open>get_attr_value\<close> is the configuration object, a
  dictionary, or a scalar.
\<close>

datatype default_arg = Config config | Plain val

text \<open>
  \<open>obj.get(attr, default[attr])\<close>: Python evaluates the argument \<open>default[attr]\<close>
  before it calls \<open>obj.get\<close>.
\<close>

fun get_attr_value :: "string \<Rightarrow> dict \<Rightarrow> default_arg \<Rightarrow> error + val" where
  "get_attr_value attr obj (Config c) =
     ebind (config_getitem c attr) (\<lambda>d. Inr (dict_get obj attr d))"
| "get_attr_value attr obj (Plain (VDict kvs)) =
     ebind (dict_getitem kvs attr) (\<lambda>d. Inr (dict_get obj attr d))"
| "get_attr_value attr obj (Plain v) = Inr (dict_get obj attr v)"

text \<open>
  The dictionary comprehension of \<open>create_config_dict\<close>: for each pair the filter
  expression is evaluated, then the value expression; the entries are stored in order.
\<close>

fun config_items :: "config \<Rightarrow> dict \<Rightarrow> (string \<times> string) list \<Rightarrow> error + (string \<times> val) list" where
  "config_items cfg styles [] = Inr []"
| "config_items cfg styles ((key, attr) # rest) =
     (case get_attr_value attr styles (Config cfg) of
        Inl e \<Rightarrow> Inl e
      | Inr c \<Rightarrow>
          if c \<noteq> VNone then
            (case get_attr_value attr styles (Config cfg) of
               Inl e \<Rightarrow> Inl e
             | Inr v \<Rightarrow>
                 (case config_items cfg styles rest of
                    Inl e \<Rightarrow> Inl e
                  | Inr items \<Rightarrow> Inr ((key, v) # items)))
          else config_items cfg styles rest)"

definition create_config_dict :: "config \<Rightarrow> dict \<Rightarrow> (string \<times> string) list \<Rightarrow> error + dict" where
  "create_config_dict cfg styles attrs =
     ebind (config_items cfg styles attrs) (\<lambda>items. Inr (dict_merge [] items))"

section \<open>Style builders (\<open>src/utils/attrs.py\<close>)\<close>

text \<open>Each builder's local list \<open>config_attrs\<close> of (argument name, configuration path).\<close>

definition line_config_attrs :: "(string \<times> string) list" where
  "line_config_attrs =
     [(''color'', ''plot.line.color''),
      (''alpha'', ''plot.line.alpha''),
      (''linewidth'', ''plot.line.width''),
      (''linestyle'', ''plot.line.style''),
      (''marker'', ''plot.line.marker''),
      (''drawstyle'', ''plot.line.drawstyle''),
      (''zorder'', ''plot.line.zorder'')]"

definition bar_config_attrs :: "bool \<Rightarrow> (string \<times> string) list" where
  "bar_config_attrs is_horizontal =
     [(''color'', ''plot.bar.color''),
      (''alpha'', ''plot.bar.alpha''),
      (if is_horizontal then ''height'' else ''width'', ''plot.bar.width''),
      (''hatch'', ''plot.bar.hatch''),
      (''linewidth'', ''plot.bar.edge.width''),
      (''edgecolor'', ''plot.bar.edge.color''),
      (''ecolor'', ''plot.bar.error.color''),
      (''zorder'', ''plot.bar.zorder'')]"

definition hist_config_attrs :: "(string \<times> string) list" where
  "hist_config_attrs =
     [(''color'', ''plot.hist.color''),
      (''alpha'', ''plot.hist.alpha''),
      (''fill'', ''plot.hist.fill''),
      (''hatch'', ''plot.hist.hatch''),
      (''zorder'', ''plot.hist.zorder''),
      (''histtype'', ''plot.hist.type''),
      (''align'', ''plot.hist.align''),
      (''linewidth'', ''plot.hist.edge.width''),
      (''edgecolor'', ''plot.hist.edge.color'')]"

definition area_config_attrs :: "(string \<times> string) list" where
  "area_config_attrs =
     [(''alpha'', ''plot.area.alpha''),
      (''color'', ''plot.area.color''),
      (''linewidth'', ''plot.area.linewidth''),
      (''hatch'', ''plot.area.hatch''),
      (''zorder'', ''plot.area.zorder'')]"

definition grid_config_attrs :: "(string \<times> string) list" where
  "grid_config_attrs =
     [(''alpha'', ''plot.grid.alpha''),
      (''color'', ''plot.grid.color''),
      (''linewidth'', ''plot.grid.line.width''),
      (''linestyle'', ''plot.grid.line.style''),
      (''zorder'', ''plot.grid.zorder'')]"

definition legend_config_attrs :: "(string \<times> string) list" where
  "legend_config_attrs =
     [(''shadow'', ''plot.legend.shadow''),
      (''frameon'', ''plot.legend.frameon''),
      (''fontsize'', ''plot.legend.fontsize''),
      (''alignment'', ''plot.legend.alignment''),
      (''title_fontsize'', ''plot.legend.title.fontsize''),
      (''labelcolor'', ''plot.legend.label.color'')]"

definition get_line_style :: "config \<Rightarrow> dict \<Rightarrow> error + dict" where
  "get_line_style cfg chart_style = create_config_dict cfg chart_style line_config_attrs"

definition get_bar_style :: "config \<Rightarrow> dict \<Rightarrow> bool \<Rightarrow> error + dict" where
  "get_bar_style cfg chart_style is_horizontal =
     create_config_dict cfg chart_style (bar_config_attrs is_horizontal)"

definition get_hist_style :: "config \<Rightarrow> dict \<Rightarrow> error + dict" where
  "get_hist_style cfg chart_style = create_config_dict cfg chart_style hist_config_attrs"

definition get_area_style :: "config \<Rightarrow> dict \<Rightarrow> error + dict" where
  "get_area_style cfg chart_style = create_config_dict cfg chart_style area_config_attrs"

definition get_grid_style :: "config \<Rightarrow> dict \<Rightarrow> error + dict" where
  "get_grid_style cfg chart_style = create_config_dict cfg chart_style grid_config_attrs"

definition get_legend_style :: "config \<Rightarrow> error + dict" where
  "get_legend_style cfg = create_config_dict cfg [] legend_config_attrs"

text \<open>
  The text builder.  A template \<open>font.{type}.size\<close> is kept as the text before and
  after the placeholder; \<open>attr.format(type=t)\<close> puts \<open>t\<close> between them.  The
  comprehension has no filter.
\<close>

definition text_config_attrs :: "(string \<times> string \<times> string) list" where
  "text_config_attrs =
     [(''fontsize'', ''font.'', ''.size''),
      (''fontweight'', ''font.'', ''.weight''),
      (''color'', ''font.'', ''.color''),
      (''style'', ''font.'', ''.style''),
      (''family'', ''font.'', ''.family'')]"

definition format_type :: "string \<times> string \<Rightarrow> string \<Rightarrow> string" where
  "format_type attr t = fst attr @ t @ snd attr"

definition get_text_style :: "config \<Rightarrow> string \<Rightarrow> dict" where
  "get_text_style cfg text_type =
     dict_merge []
       (map (\<lambda>(key, attr).
               (key, config_get cfg (format_type attr text_type)
                       (config_get cfg (format_type attr ''general'') VNone)))
          text_config_attrs)"

section \<open>Calls into the plotting backend and warnings\<close>

text \<open>
  The library's output is a sequence of warnings and of calls into the plotting backend.
  A function with such effects returns the effects it issued, in order, and the
  exception that ended it, if any.  An axes object is named by a number.
\<close>

record hist_call =
  hc_ax :: nat
  hc_x :: val
  hc_bins :: val
  hc_density :: "val option"
  hc_cumulative :: "val option"
  hc_orientation :: val
  hc_stacked :: val
  hc_kwargs :: dict

datatype effect =
    Warn string
  | SetXTicks nat val "val option"
  | SetYTicks nat val "val option"
  | Hist hist_call
  | Grid nat val dict

type_synonym run = "effect list \<times> error option"

text \<open>A \<open>for\<close> loop whose body has effects; an exception ends the loop.\<close>

fun for_each :: "('a \<Rightarrow> run) \<Rightarrow> 'a list \<Rightarrow> run" where
  "for_each body [] = ([], None)"
| "for_each body (x # xs) =
     (case body x of
        (es, Some e) \<Rightarrow> (es, Some e)
      | (es, None) \<Rightarrow> (case for_each body xs of (es', r) \<Rightarrow> (es @ es', r)))"

section \<open>Tick positions (\<open>configure_axis_ticks_position\<close>)\<close>

text \<open>\<open>len\<close> of a value; only sized values have one.\<close>

fun py_len :: "val \<Rightarrow> error + nat" where
  "py_len (VStr s) = Inr (length s)"
| "py_len (VList xs) = Inr (length xs)"
| "py_len (VDict kvs) = Inr (length kvs)"
| "py_len v = Inl TypeError"

definition tick_attrs :: "(string \<times> string \<times> string) list" where
  "tick_attrs =
     [(''xticks'', ''xticklabels'', ''xaxis''),
      (''yticks'', ''yticklabels'', ''yaxis'')]"

definition ticks_missing_msg :: "string \<Rightarrow> string \<Rightarrow> string" where
  "ticks_missing_msg t l =
     ''The attribute `'' @ t @ ''` is not specified but `'' @ l @ ''` is. ''
     @ ''Please provide the `'' @ t @ ''` values.''"

definition ticks_length_msg :: "string \<Rightarrow> string \<Rightarrow> string" where
  "ticks_length_msg t l =
     ''The values of `'' @ t @ ''` and `'' @ l @ ''` are of different lengths. ''
     @ ''Please provide the same number of values. Ignoring `'' @ l @ ''` values...''"

text \<open>The body of the loop over \<open>tick_attrs\<close>.\<close>

definition configure_axis_ticks_body :: "nat \<Rightarrow> dict \<Rightarrow> string \<times> string \<times> string \<Rightarrow> run" where
  "configure_axis_ticks_body ax chart attrs =
     (let ticks = dict_get chart (fst attrs) VNone;
          ticklabels = dict_get chart (fst (snd attrs)) VNone;
          func = (if snd (snd attrs) = ''xaxis'' then SetXTicks ax else SetYTicks ax)
      in
        if ticks = VNone \<and> ticklabels \<noteq> VNone then
          ([Warn (ticks_missing_msg (fst attrs) (fst (snd attrs)))], None)
        else if ticks \<noteq> VNone then
          (if ticklabels = VNone then ([func ticks None], None)
           else
             (case py_len ticks of
                Inl e \<Rightarrow> ([], Some e)
              | Inr n \<Rightarrow>
                  (case py_len ticklabels of
                     Inl e \<Rightarrow> ([], Some e)
                   | Inr m \<Rightarrow>
                       if n \<noteq> m then
                         ([Warn (ticks_length_msg (fst attrs) (fst (snd attrs))),
                           func ticks None], None)
                       else ([func ticks (Some ticklabels)], None))))
        else ([], None))"

definition configure_axis_ticks_position :: "nat \<Rightarrow> dict \<Rightarrow> run" where
  "configure_axis_ticks_position ax chart =
     for_each (configure_axis_ticks_body ax chart) tick_attrs"

text \<open>
  The tick policy in the words of the spec, for one axis: \<open>ticks\<close> and \<open>labels\<close> are
  the positions and labels given, if any.
\<close>

definition tick_policy_spec ::
  "(val \<Rightarrow> val option \<Rightarrow> effect) \<Rightarrow> string \<Rightarrow> string \<Rightarrow> val list option \<Rightarrow> val list option
     \<Rightarrow> effect list" where
  "tick_policy_spec set_ticks t l ticks labels =
     (case (ticks, labels) of
        (None, None) \<Rightarrow> []
      | (None, Some ls) \<Rightarrow> [Warn (ticks_missing_msg t l)]
      | (Some ps, None) \<Rightarrow> [set_ticks (VList ps) None]
      | (Some ps, Some ls) \<Rightarrow>
          if length ps = length ls then [set_ticks (VList ps) (Some (VList ls))]
          else [Warn (ticks_length_msg t l), set_ticks (VList ps) None])"

text \<open>An optional sequence as it sits in the chart dictionary.\<close>

definition opt_list :: "val list option \<Rightarrow> val" where
  "opt_list xs = (case xs of None \<Rightarrow> VNone | Some ys \<Rightarrow> VList ys)"

section \<open>Drawing-config check (\<open>assert_chart_config\<close>)\<close>

definition unsupported_msg :: "string \<Rightarrow> string" where
  "unsupported_msg key =
     ''Warning: chart_config['' @ [CHR 0x27] @ key @ [CHR 0x27]
     @ ''] is present but is not supported. Ignoring flag...''"

fun assert_chart_config :: "dict \<Rightarrow> string list \<Rightarrow> effect list" where
  "assert_chart_config [] supported_chart_config = []"
| "assert_chart_config ((key, v) # rest) supported_chart_config =
     (if key \<notin> set supported_chart_config \<and> truthy v then [Warn (unsupported_msg key)] else [])
     @ assert_chart_config rest supported_chart_config"


definition bar_supported :: "string list" where
  "bar_supported = [''as_subplots'', ''grid'', ''yerr'', ''orientation'']"

definition hist_supported :: "string list" where
  "hist_supported = [''as_subplots'', ''grid'', ''n_bins'', ''orientation'']"

text \<open>
  The drawing config that \<open>chart_wrapper\<close> assembles from the top-level attributes and
  passes to the drawer: all six keys, always.
\<close>

definition chart_wrapper_chart_config :: "dict \<Rightarrow> dict" where
  "chart_wrapper_chart_config attrs =
     [(''as_subplots'', dict_get attrs ''as_subplots'' (VBool False)),
      (''grid'', dict_get attrs ''show_grid'' VNone),
      (''yerr'', dict_get attrs ''show_yerr'' VNone),
      (''area'', dict_get attrs ''show_area'' VNone),
      (''orientation'', dict_get attrs ''orientation'' VNone),
      (''n_bins'', dict_get attrs ''n_bins'' VNone)]"

section \<open>Chart data (\<open>get_chart_data\<close>)\<close>

text \<open>
  \<open>attr_label in d\<close> followed by \<open>d[attr_label]\<close> on a dictionary with string keys:
  a string is looked up, an unhashable label raises, any other label is not a key.
\<close>

fun dict_lookup_val :: "dict \<Rightarrow> val \<Rightarrow> error + val option" where
  "dict_lookup_val d (VStr s) = Inr (map_of d s)"
| "dict_lookup_val d (VList xs) = Inl TypeError"
| "dict_lookup_val d (VDict kvs) = Inl TypeError"
| "dict_lookup_val d v = Inr None"

text \<open>
  \<open>[d[attr_label] for d in chart["data"] if attr_label in d]\<close>.  The data model has
  per-point mappings in a data sequence; a point of another type is reported as the
  \<open>TypeError\<close> that the membership test or the subscript raises on it.
\<close>

fun point_values :: "val \<Rightarrow> val list \<Rightarrow> error + val list" where
  "point_values attr_label [] = Inr []"
| "point_values attr_label (VDict d # rest) =
     (case dict_lookup_val d attr_label of
        Inl e \<Rightarrow> Inl e
      | Inr r \<Rightarrow>
          (case point_values attr_label rest of
             Inl e \<Rightarrow> Inl e
           | Inr vs \<Rightarrow> Inr (case r of None \<Rightarrow> vs | Some v \<Rightarrow> v # vs)))"
| "point_values attr_label (p # rest) = Inl TypeError"

definition get_chart_data :: "string \<Rightarrow> dict \<Rightarrow> error + val" where
  "get_chart_data attr chart =
     ebind (get_attr_value attr chart (Plain (VStr attr))) (\<lambda>attr_label.
     ebind (dict_getitem chart ''data'') (\<lambda>data.
       case data of
         VDict d \<Rightarrow>
           ebind (dict_lookup_val d attr_label)
             (\<lambda>r. Inr (case r of Some v \<Rightarrow> v | None \<Rightarrow> VNone))
       | VList ds \<Rightarrow>
           ebind (point_values attr_label ds)
             (\<lambda>vs. Inr (if length vs > 0 then VList vs else VNone))
       | _ \<Rightarrow> Inr VNone))"

section \<open>Series hash and color cycle\<close>

text \<open>
  \<open>json.dumps(chart, sort_keys=True)\<close> with the default separators.  The items of
  every dictionary, at every depth, are sorted by key before they are written; keys
  are strings and compare as Python strings do.  The encoder of a string literal
  (quoting and escaping) is a parameter \<open>enc\<close>.
\<close>

fun digits :: "nat \<Rightarrow> string" where
  "digits n =
     (if n < 10 then [char_of (48 + n)]
      else digits (n div 10) @ [char_of (48 + n mod 10)])"

definition show_int :: "int \<Rightarrow> string" where
  "show_int i = (if i < 0 then CHR ''-'' # digits (nat (- i)) else digits (nat i))"

fun join :: "string \<Rightarrow> string list \<Rightarrow> string" where
  "join sep [] = []"
| "join sep [x] = x"
| "join sep (x # y # ys) = x @ sep @ join sep (y # ys)"

function json_dumps :: "(string \<Rightarrow> string) \<Rightarrow> val \<Rightarrow> string" where
  "json_dumps enc VNone = ''null''"
| "json_dumps enc (VBool b) = (if b then ''true'' else ''false'')"
| "json_dumps enc (VInt i) = show_int i"
| "json_dumps enc (VStr s) = enc s"
| "json_dumps enc (VList xs) = ''['' @ join '', '' (map (json_dumps enc) xs) @ '']''"
| "json_dumps enc (VDict kvs) =
     ''{''
     @ join '', '' (map (\<lambda>(k, v). enc k @ '': '' @ json_dumps enc v) (sort_key fst kvs))
     @ ''}''"
  by pat_completeness auto
termination
proof (relation "measure (\<lambda>(enc, v). size v)")
  show "wf (measure (\<lambda>(enc :: string \<Rightarrow> string, v :: val). size v))" by simp
next
  fix enc :: "string \<Rightarrow> string" and xs :: "val list" and x :: val
  assume "x \<in> set xs"
  then have "size x < Suc (size_list size xs)"
    by (induction xs) auto
  then show "((enc, x), (enc, VList xs)) \<in> measure (\<lambda>(enc, v). size v)"
    by simp
next
  fix enc :: "string \<Rightarrow> string" and kvs :: "(string \<times> val) list"
    and x :: "string \<times> val" and k :: string and v :: val
  assume "x \<in> set (sort_key fst kvs)" and "(k, v) = x"
  then have "(k, v) \<in> set kvs" by simp
  then have "size v < Suc (size_list (size_prod (\<lambda>_. 0) size) kvs)"
    by (induction kvs) auto
  then show "((enc, v), (enc, VDict kvs)) \<in> measure (\<lambda>(enc, v). size v)"
    by simp
qed

text \<open>
  What the drawers take from outside the sources at hand:
  \<^item> \<open>str_hash\<close>: the builtin \<open>hash\<close> on strings, one fixed function within a process;
  \<^item> \<open>json_str\<close>: the string-literal encoder of \<open>json.dumps\<close>;
  \<^item> \<open>create_color_cycle\<close>: imported from \<open>utils.colors\<close>; given the color name and
    the number of colors it yields the object that \<open>color_cycle[h]\<close> subscripts;
  \<^item> \<open>np_hstack\<close>, \<open>np_histogram_edges\<close>: \<open>np.hstack(tuple(xs))\<close> and
    \<open>np.histogram(a, bins=b)[1]\<close>;
  \<^item> \<open>get_hist_config\<close>, \<open>get_grid_config\<close>: the hist and grid style builders
    under the names \<open>charts.py\<close> imports them by.
\<close>

record pyenv =
  str_hash :: "string \<Rightarrow> int"
  json_str :: "string \<Rightarrow> string"
  create_color_cycle :: "val \<Rightarrow> int \<Rightarrow> int \<Rightarrow> dict"
  np_hstack :: "val list \<Rightarrow> error + val"
  np_histogram_edges :: "val \<Rightarrow> val \<Rightarrow> error + val"
  get_hist_config :: "val \<Rightarrow> error + dict"
  get_grid_config :: "val \<Rightarrow> error + dict"

definition custom_color_cycle :: "pyenv \<Rightarrow> config \<Rightarrow> val \<Rightarrow> int \<Rightarrow> error + (int \<Rightarrow> dict)" where
  "custom_color_cycle env cfg as_subplots n_charts =
     ebind (if truthy as_subplots then config_getitem cfg ''color.general.singular''
            else config_getitem cfg ''color.general.multiple'')
       (\<lambda>color_name.
          Inr (create_color_cycle env color_name (if truthy as_subplots then 1 else n_charts)))"

text \<open>\<open>hash(json.dumps(chart, sort_keys=True))\<close>.\<close>

definition chart_hash :: "pyenv \<Rightarrow> dict \<Rightarrow> int" where
  "chart_hash env chart = str_hash env (json_dumps (json_str env) (VDict chart))"

text \<open>
  The color assignment of a series in a draw call: each drawer builds
  \<open>color_cycle = custom_color_cycle(chart_config["as_subplots"], n_charts=len(charts))\<close>
  once and then subscripts it, \<open>color_cycle[chart_hash]\<close>, for every series.
\<close>

definition series_color :: "pyenv \<Rightarrow> config \<Rightarrow> val \<Rightarrow> int \<Rightarrow> dict \<Rightarrow> error + dict" where
  "series_color env cfg as_subplots n_charts chart =
     ebind (custom_color_cycle env cfg as_subplots n_charts)
       (\<lambda>color_cycle. Inr (color_cycle (chart_hash env chart)))"

text \<open>
  Two values with the same content: equal, or sequences of such values, or dictionaries
  with the same keys, in any order, whose values at each key have the same content.
\<close>

inductive same_content :: "val \<Rightarrow> val \<Rightarrow> bool" where
  same: "same_content v v"
| seq: "list_all2 same_content xs ys \<Longrightarrow> same_content (VList xs) (VList ys)"
| reordered:
    "distinct (map fst kvs) \<Longrightarrow> mset (map fst kvs') = mset (map fst kvs) \<Longrightarrow>
     (\<forall>k v v'. (k, v) \<in> set kvs \<longrightarrow> (k, v') \<in> set kvs' \<longrightarrow> same_content v v') \<Longrightarrow>
     same_content (VDict kvs) (VDict kvs')"

section \<open>The histogram drawer (\<open>draw_hist_chart\<close>)\<close>

text \<open>One element of the list comprehension that resolves every series' style.\<close>

definition series_hist_config :: "pyenv \<Rightarrow> (int \<Rightarrow> dict) \<Rightarrow> dict \<Rightarrow> error + dict" where
  "series_hist_config env color_cycle chart =
     ebind (get_hist_config env (dict_get chart ''style'' (VDict [])))
       (\<lambda>b. Inr (dict_merge (color_cycle (chart_hash env chart)) b))"

text \<open>The branch \<open>if not chart_config["as_subplots"]\<close>: one stacked call on \<open>axes[0]\<close>.\<close>

definition draw_hist_shared ::
  "pyenv \<Rightarrow> nat list \<Rightarrow> dict list \<Rightarrow> dict \<Rightarrow> val \<Rightarrow> val list \<Rightarrow> val \<Rightarrow> (int \<Rightarrow> dict) \<Rightarrow> run" where
  "draw_hist_shared env axes charts chart_config orientation x_all bins color_cycle =
     (case emap (series_hist_config env color_cycle) charts of
        Inl e \<Rightarrow> ([], Some e)
      | Inr hist_config \<Rightarrow>
     (case emap (\<lambda>c. dict_getitem c ''color'') hist_config of
        Inl e \<Rightarrow> ([], Some e)
      | Inr color \<Rightarrow>
     (case hist_config of
        [] \<Rightarrow> ([], Some IndexError)
      | hc0 # _ \<Rightarrow>
     (case axes of
        [] \<Rightarrow> ([], Some IndexError)
      | ax0 # _ \<Rightarrow>
          (let call = Hist \<lparr>hc_ax = ax0, hc_x = VList x_all, hc_bins = bins,
                           hc_density = None, hc_cumulative = None,
                           hc_orientation = orientation, hc_stacked = VBool True,
                           hc_kwargs =
                             dict_merge hc0
                               [(''color'',
                                 if count_list color VNone > 0 then VNone else VList color)]\<rparr>
           in
             (case dict_getitem chart_config ''grid'' of
                Inl e \<Rightarrow> ([call], Some e)
              | Inr g \<Rightarrow>
                  if truthy g then
                    (case charts of
                       [] \<Rightarrow> ([call], Some IndexError)
                     | c0 # _ \<Rightarrow>
                         (case get_grid_config env (VDict c0) of
                            Inl e \<Rightarrow> ([call], Some e)
                          | Inr gk \<Rightarrow> ([call, Grid ax0 g gk], None)))
                  else ([call], None)))))))"

text \<open>The body of the loop \<open>for chart, ax in zip(charts, axes)\<close> of the other branch.\<close>

definition draw_hist_subplot_body ::
  "pyenv \<Rightarrow> dict \<Rightarrow> val \<Rightarrow> val \<Rightarrow> (int \<Rightarrow> dict) \<Rightarrow> dict \<times> nat \<Rightarrow> run" where
  "draw_hist_subplot_body env chart_config orientation bins color_cycle ca =
     (let chart = fst ca; ax = snd ca; style = dict_get chart ''style'' (VDict []) in
      case get_chart_data ''x'' chart of Inl e \<Rightarrow> ([], Some e) | Inr x \<Rightarrow>
      case get_chart_data ''density'' chart of Inl e \<Rightarrow> ([], Some e) | Inr density \<Rightarrow>
      case get_chart_data ''cumulative'' chart of Inl e \<Rightarrow> ([], Some e) | Inr cumulative \<Rightarrow>
      case get_hist_config env style of Inl e \<Rightarrow> ([], Some e) | Inr b \<Rightarrow>
      case dict_getitem chart_config ''as_subplots'' of Inl e \<Rightarrow> ([], Some e) | Inr a \<Rightarrow>
        (let call = Hist \<lparr>hc_ax = ax, hc_x = x, hc_bins = bins,
                         hc_density = Some density, hc_cumulative = Some cumulative,
                         hc_orientation = orientation, hc_stacked = VBool (\<not> truthy a),
                         hc_kwargs = dict_merge (color_cycle (chart_hash env chart)) b\<rparr>
         in
           (case dict_getitem chart_config ''grid'' of
              Inl e \<Rightarrow> ([call], Some e)
            | Inr g \<Rightarrow>
                if truthy g then
                  (case get_grid_config env (VDict chart) of
                     Inl e \<Rightarrow> ([call], Some e)
                   | Inr gk \<Rightarrow> ([call, Grid ax g gk], None))
                else ([call], None))))"

definition draw_hist_chart :: "pyenv \<Rightarrow> config \<Rightarrow> nat list \<Rightarrow> dict list \<Rightarrow> dict \<Rightarrow> run" where
  "draw_hist_chart env cfg axes charts chart_config =
     (let warnings = assert_chart_config chart_config hist_supported;
          orientation = dict_get chart_config ''orientation'' (VStr ''vertical'');
          n_bins = dict_get chart_config ''n_bins'' (VInt 20)
      in
      case emap (get_chart_data ''x'') charts of Inl e \<Rightarrow> (warnings, Some e) | Inr x_all \<Rightarrow>
      case np_hstack env x_all of Inl e \<Rightarrow> (warnings, Some e) | Inr stacked \<Rightarrow>
      case np_histogram_edges env stacked n_bins of Inl e \<Rightarrow> (warnings, Some e) | Inr bins \<Rightarrow>
      case dict_getitem chart_config ''as_subplots'' of Inl e \<Rightarrow> (warnings, Some e) | Inr a \<Rightarrow>
      case custom_color_cycle env cfg a (int (length charts)) of
        Inl e \<Rightarrow> (warnings, Some e)
      | Inr color_cycle \<Rightarrow>
          (case (if \<not> truthy a then
                   draw_hist_shared env axes charts chart_config orientation x_all bins color_cycle
                 else
                   for_each
                     (draw_hist_subplot_body env chart_config orientation bins color_cycle)
                     (zip charts axes))
           of (es, r) \<Rightarrow> (warnings @ es, r)))"

section \<open>Tables and sample inputs for the properties\<close>

text \<open>
  The builders that resolve a series style through \<open>create_config_dict\<close>, each with
  its declared list.
\<close>

definition style_builders ::
  "config \<Rightarrow> bool \<Rightarrow> ((dict \<Rightarrow> error + dict) \<times> (string \<times> string) list) list" where
  "style_builders cfg is_horizontal =
     [(get_line_style cfg, line_config_attrs),
      (\<lambda>s. get_bar_style cfg s is_horizontal, bar_config_attrs is_horizontal),
      (get_hist_style cfg, hist_config_attrs),
      (get_area_style cfg, area_config_attrs),
      (get_grid_style cfg, grid_config_attrs)]"

text \<open>A configuration of the grid paths, and a series style that sets each of them.\<close>

definition example_config :: config where
  "example_config =
     map_of
       [(''plot.grid.alpha'', VInt 1),
        (''plot.grid.color'', VStr ''grey''),
        (''plot.grid.line.width'', VInt 1),
        (''plot.grid.line.style'', VNone),
        (''plot.grid.zorder'', VInt 0)]"

definition example_style :: dict where
  "example_style =
     [(''plot.grid.alpha'', VInt 2),
      (''plot.grid.color'', VStr ''red''),
      (''plot.grid.line.width'', VInt 3),
      (''plot.grid.line.style'', VStr ''--''),
      (''plot.grid.zorder'', VInt 5)]"


text \<open>
  A configuration of the hist paths and the two color names; stand-ins for what the
  drawers take from outside (the hash is the length of the string, the color cycle
  returns the color name with the index reduced modulo the size, the bin-edge
  computation returns its two arguments); and two series.
\<close>

definition hist_config_sample :: config where
  "hist_config_sample =
     map_of
       [(''plot.hist.color'', VNone),
        (''plot.hist.alpha'', VInt 1),
        (''plot.hist.fill'', VBool True),
        (''plot.hist.hatch'', VNone),
        (''plot.hist.zorder'', VInt 2),
        (''plot.hist.type'', VStr ''bar''),
        (''plot.hist.align'', VStr ''mid''),
        (''plot.hist.edge.width'', VInt 1),
        (''plot.hist.edge.color'', VNone),
        (''color.general.singular'', VStr ''blue''),
        (''color.general.multiple'', VStr ''Set1'')]"

definition example_env :: pyenv where
  "example_env =
     \<lparr>str_hash = (\<lambda>s. int (length s)),
      json_str = (\<lambda>s. [CHR 0x22] @ s @ [CHR 0x22]),
      create_color_cycle = (\<lambda>name n h. [(''color'', VList [name, VInt (h mod n)])]),
      np_hstack = (\<lambda>xs. Inr (VList xs)),
      np_histogram_edges = (\<lambda>a b. Inr (VList [a, b])),
      get_hist_config =
        (\<lambda>style. case style of VDict d \<Rightarrow> get_hist_style hist_config_sample d
                   | _ \<Rightarrow> Inl AttributeError),
      get_grid_config =
        (\<lambda>style. case style of VDict d \<Rightarrow> get_grid_style example_config d
                   | _ \<Rightarrow> Inl AttributeError)\<rparr>"

definition series_a :: dict where
  "series_a =
     [(''data'', VDict [(''x'', VList [VInt 1, VInt 2]), (''w'', VList [])]),
      (''style'', VDict [(''plot.hist.alpha'', VInt 3)])]"

definition series_a_reordered :: dict where
  "series_a_reordered =
     [(''style'', VDict [(''plot.hist.alpha'', VInt 3)]),
      (''data'', VDict [(''w'', VList []), (''x'', VList [VInt 1, VInt 2])])]"

definition series_b :: dict where
  "series_b =
     [(''data'', VDict [(''x'', VList [VInt 3])]),
      (''style'', VDict [(''plot.hist.color'', VStr ''red''), (''plot.hist.hatch'', VStr ''/'')])]"

definition sample_call :: hist_call where
  "sample_call =
     \<lparr>hc_ax = 0, hc_x = VList [VList [VInt 1, VInt 2], VList [VInt 3]],
      hc_bins = VList [VList [VList [VInt 1, VInt 2], VList [VInt 3]], VNone],
      hc_density = None, hc_cumulative = None, hc_orientation = VNone,
      hc_stacked = VBool True,
      hc_kwargs =
        [(''color'',
          VList [VList [VStr ''Set1'', VInt (chart_hash example_env series_a mod 2)],
                 VStr ''red'']),
         (''alpha'', VInt 3), (''fill'', VBool True), (''zorder'', VInt 2),
         (''histtype'', VStr ''bar''), (''align'', VStr ''mid''),
         (''linewidth'', VInt 1)]\<rparr>"

section \<open>Properties\<close>

lemma ceiling_quotient: "\<lceil>real_of_int n / real_of_int m\<rceil> = - ((- n) div m)"
proof -
  have "\<lceil>real_of_int n / real_of_int m\<rceil> = - \<lfloor>- (real_of_int n / real_of_int m)\<rfloor>"
    by (simp add: ceiling_def)
  also have "- (real_of_int n / real_of_int m) = real_of_int (- n) / real_of_int m"
    by simp
  also have "\<lfloor>real_of_int (- n) / real_of_int m\<rfloor> = (- n) div m"
    by (rule floor_divide_of_int_eq)
  finally show ?thesis .
qed

subsection \<open>Subplot layout\<close>

text \<open>
  C1.  For positive chart count \<open>n\<close> and maximum-column count \<open>m\<close>, both copies of
  \<open>get_subplot_config\<close> return one row and one column when the subplots flag is false;
  when it is true they return \<open>m\<close> columns if \<open>n \<ge> m\<close> and \<open>n mod m\<close> otherwise, and
  the ceiling of \<open>n / m\<close> rows, that is the least \<open>r\<close> with \<open>n \<le> r * m\<close>.  Ten charts
  in at most four columns take three rows of four; four charts one row of four; three
  charts one row of three.
\<close>

theorem get_subplot_config_layout:
  assumes "0 < n" and "0 < m"
  shows "get_subplot_config False n m = Inr \<lparr>nrows = 1, ncols = 1\<rparr>
       \<and> get_subplot_config_src False n m = Inr \<lparr>nrows = 1, ncols = 1\<rparr>
       \<and> get_subplot_config True n m
           = Inr \<lparr>nrows = \<lceil>real_of_int n / real_of_int m\<rceil>,
                  ncols = (if n \<ge> m then m else n mod m)\<rparr>
       \<and> get_subplot_config_src True n m = get_subplot_config True n m
       \<and> (\<forall>r c. get_subplot_config True n m = Inr \<lparr>nrows = r, ncols = c\<rparr>
             \<longrightarrow> (r - 1) * m < n \<and> n \<le> r * m)
       \<and> get_subplot_config True 10 4 = Inr \<lparr>nrows = 3, ncols = 4\<rparr>
       \<and> get_subplot_config True 4 4 = Inr \<lparr>nrows = 1, ncols = 4\<rparr>
       \<and> get_subplot_config True 3 4 = Inr \<lparr>nrows = 1, ncols = 3\<rparr>"
proof -
  have rows: "(\<lceil>real_of_int n / real_of_int m\<rceil> - 1) * m < n
              \<and> n \<le> \<lceil>real_of_int n / real_of_int m\<rceil> * m"
  proof -
    let ?q = "real_of_int n / real_of_int m"
    have m0: "0 < real_of_int m" using assms by simp
    have m1: "0 \<le> real_of_int m" using m0 by linarith
    have nq: "real_of_int n = ?q * real_of_int m" using m0 by simp
    have "real_of_int \<lceil>?q\<rceil> - 1 < ?q" by linarith
    hence "(real_of_int \<lceil>?q\<rceil> - 1) * real_of_int m < ?q * real_of_int m"
      using m0 by (rule mult_strict_right_mono)
    hence "real_of_int ((\<lceil>?q\<rceil> - 1) * m) < real_of_int n"
      using nq by simp
    hence a: "(\<lceil>?q\<rceil> - 1) * m < n" by (simp only: of_int_less_iff)
    have up: "?q \<le> real_of_int \<lceil>?q\<rceil>" by linarith
    from up m1 have "?q * real_of_int m \<le> real_of_int \<lceil>?q\<rceil> * real_of_int m"
      by (rule mult_right_mono)
    hence "real_of_int n \<le> real_of_int (\<lceil>?q\<rceil> * m)"
      using nq by simp
    hence b: "n \<le> \<lceil>?q\<rceil> * m" by (simp only: of_int_le_iff)
    from a b show ?thesis by simp
  qed
  have ex1: "\<lceil>real_of_int 10 / real_of_int 4\<rceil> = 3" by (simp add: ceiling_quotient)
  have ex2: "\<lceil>real_of_int 4 / real_of_int 4\<rceil> = 1" by (simp add: ceiling_quotient)
  have ex3: "\<lceil>real_of_int 3 / real_of_int 4\<rceil> = 1" by (simp add: ceiling_quotient)
  show ?thesis
    using assms rows ex1 ex2 ex3
    by (simp add: get_subplot_config_def get_subplot_config_src_def)
qed

theorem get_subplot_config_layout_witness:
  "(0::int) < 7 \<and> (0::int) < 3
   \<and> get_subplot_config False 7 3 = Inr \<lparr>nrows = 1, ncols = 1\<rparr>
   \<and> get_subplot_config True 7 3 = Inr \<lparr>nrows = 3, ncols = 3\<rparr>
   \<and> get_subplot_config_src True 7 3 = Inr \<lparr>nrows = 3, ncols = 3\<rparr>"
proof -
  have h1: "(0::int) < 7" and h2: "(0::int) < 3" by simp_all
  have c: "\<lceil>real_of_int 7 / real_of_int 3\<rceil> = 3" by (simp add: ceiling_quotient)
  show ?thesis
    using get_subplot_config_layout [OF h1 h2] c by simp
qed

text \<open>
  C2, as stated, fails: with the subplots flag false the counts are not looked at, and
  a zero chart count with a zero column count yields the one-by-one layout.
\<close>

theorem get_subplot_config_unchecked_counterexample:
  "get_subplot_config False 0 0 = Inr \<lparr>nrows = 1, ncols = 1\<rparr>"
  by (simp add: get_subplot_config_def)

text \<open>
  C2, amended.  A call of \<open>get_subplot_config\<close> (\<open>datachart/utils/attrs.py\<close>) with
  the subplots flag true fails with the assertion error exactly when the chart count or
  the maximum-column count is zero or negative, and fails in no other way; with the
  flag false the counts are not checked and the one-by-one layout is returned.
\<close>

theorem get_subplot_config_precondition:
  "(get_subplot_config True n m = Inl AssertionError \<longleftrightarrow> n \<le> 0 \<or> m \<le> 0)
   \<and> (\<forall>e. get_subplot_config True n m = Inl e \<longrightarrow> e = AssertionError)
   \<and> get_subplot_config False n m = Inr \<lparr>nrows = 1, ncols = 1\<rparr>"
  by (auto simp add: get_subplot_config_def)

theorem get_subplot_config_precondition_witness:
  "get_subplot_config True 0 4 = Inl AssertionError
   \<and> get_subplot_config True 3 (- 1) = Inl AssertionError
   \<and> get_subplot_config True (- 2) 0 = Inl AssertionError
   \<and> get_subplot_config False 0 (- 1) = Inr \<lparr>nrows = 1, ncols = 1\<rparr>"
  using get_subplot_config_precondition [of 0 4] get_subplot_config_precondition [of 3 "- 1"]
    get_subplot_config_precondition [of "- 2" 0] get_subplot_config_precondition [of 0 "- 1"]
  by simp

subsection \<open>Attribute resolution and style builders\<close>

lemma get_attr_value_config:
  "get_attr_value attr obj (Config c)
     = (case c attr of None \<Rightarrow> Inl KeyError | Some d \<Rightarrow> Inr (dict_get obj attr d))"
  by (simp add: ebind_def config_getitem_def split: option.splits)

lemma get_attr_value_dict:
  "get_attr_value attr obj (Plain (VDict kvs))
     = (case map_of kvs attr of None \<Rightarrow> Inl KeyError | Some d \<Rightarrow> Inr (dict_get obj attr d))"
  by (simp add: ebind_def dict_getitem_def split: option.splits)

lemma config_items_Cons:
  "config_items cfg styles ((key, attr) # rest)
     = (case cfg attr of
          None \<Rightarrow> Inl KeyError
        | Some d \<Rightarrow>
            if dict_get styles attr d \<noteq> VNone then
              (case config_items cfg styles rest of
                 Inl e \<Rightarrow> Inl e
               | Inr items \<Rightarrow> Inr ((key, dict_get styles attr d) # items))
            else config_items cfg styles rest)"
  by (simp add: ebind_def config_getitem_def split: option.splits)

lemma config_items_returns:
  "(\<exists>items. config_items cfg styles attrs = Inr items) \<longleftrightarrow> (\<forall>(k, a) \<in> set attrs. cfg a \<noteq> None)"
proof (induction attrs)
  case Nil
  then show ?case by simp
next
  case (Cons p attrs)
  obtain key attr where p: "p = (key, attr)" by (cases p)
  show ?case
    using Cons.IH unfolding p config_items_Cons
    by (auto split: option.splits sum.splits)
qed

lemma config_items_set:
  "config_items cfg styles attrs = Inr items \<Longrightarrow>
   set items = {(k, v). \<exists>a d. (k, a) \<in> set attrs \<and> cfg a = Some d \<and> v = dict_get styles a d \<and> v \<noteq> VNone}"
proof (induction attrs arbitrary: items)
  case Nil
  then show ?case by simp
next
  case (Cons p attrs)
  obtain key attr where p: "p = (key, attr)" by (cases p)
  from Cons.prems obtain d where d: "cfg attr = Some d"
    unfolding p config_items_Cons by (auto split: option.splits)
  show ?case
  proof (cases "dict_get styles attr d = VNone")
    case True
    with Cons.prems have "config_items cfg styles attrs = Inr items"
      unfolding p config_items_Cons by (simp add: d)
    from Cons.IH [OF this] True d show ?thesis
      unfolding p by auto
  next
    case False
    with Cons.prems obtain rest where r: "config_items cfg styles attrs = Inr rest"
      and i: "items = (key, dict_get styles attr d) # rest"
      unfolding p config_items_Cons by (auto simp: d split: sum.splits)
    from Cons.IH [OF r] i d False show ?thesis
      unfolding p by auto
  qed
qed

lemma config_items_keys:
  "config_items cfg styles attrs = Inr items \<Longrightarrow> distinct (map fst attrs) \<Longrightarrow>
   distinct (map fst items) \<and> fst ` set items \<subseteq> fst ` set attrs"
proof (induction attrs arbitrary: items)
  case Nil
  then show ?case by simp
next
  case (Cons p attrs)
  obtain key attr where p: "p = (key, attr)" by (cases p)
  from Cons.prems(1) obtain d where d: "cfg attr = Some d"
    unfolding p config_items_Cons by (auto split: option.splits)
  from Cons.prems(2) have da: "distinct (map fst attrs)" and k: "key \<notin> fst ` set attrs"
    unfolding p by auto
  show ?case
  proof (cases "dict_get styles attr d = VNone")
    case True
    with Cons.prems(1) have "config_items cfg styles attrs = Inr items"
      unfolding p config_items_Cons by (simp add: d)
    from Cons.IH [OF this da] show ?thesis
      unfolding p by auto
  next
    case False
    with Cons.prems(1) obtain rest where r: "config_items cfg styles attrs = Inr rest"
      and i: "items = (key, dict_get styles attr d) # rest"
      unfolding p config_items_Cons by (auto simp: d split: sum.splits)
    from Cons.IH [OF r da] i k show ?thesis
      unfolding p by auto
  qed
qed

lemma dict_merge_map_of:
  "map_of (dict_merge a b) k
     = (case map_of (rev b) k of Some v \<Rightarrow> Some v | None \<Rightarrow> map_of a k)"
proof (induction b arbitrary: a)
  case Nil
  then show ?case by (simp add: dict_merge_def)
next
  case (Cons p b)
  obtain k' v' where p: "p = (k', v')" by (cases p)
  have "dict_merge a (p # b) = dict_merge (AList.update k' v' a) b"
    by (simp add: dict_merge_def p)
  then show ?case
    using Cons.IH [of "AList.update k' v' a"]
    by (auto simp: p update_conv' map_add_def split: option.splits)
qed

lemma dict_merge_set: "set (dict_merge a b) \<subseteq> set a \<union> set b"
proof (induction b arbitrary: a)
  case Nil
  then show ?case by (simp add: dict_merge_def)
next
  case (Cons p b)
  obtain k' v' where p: "p = (k', v')" by (cases p)
  have "dict_merge a (p # b) = dict_merge (AList.update k' v' a) b"
    by (simp add: dict_merge_def p)
  moreover have "set (AList.update k' v' a) \<subseteq> insert (k', v') (set a)"
    by (induction a) auto
  ultimately show ?case
    using Cons.IH [of "AList.update k' v' a"] p by auto
qed

lemma create_config_dict_props:
  assumes d: "distinct (map fst attrs)"
  shows "((\<exists>out. create_config_dict cfg styles attrs = Inr out) \<longleftrightarrow> (\<forall>(k, a) \<in> set attrs. cfg a \<noteq> None))"
    and "create_config_dict cfg styles attrs = Inr out \<Longrightarrow> (k, v) \<in> set out \<Longrightarrow> v \<noteq> VNone"
    and "create_config_dict cfg styles attrs = Inr out \<Longrightarrow> (k, a) \<in> set attrs
           \<Longrightarrow> map_of styles a = Some v \<Longrightarrow> v \<noteq> VNone \<Longrightarrow> map_of out k = Some v"
proof -
  show "((\<exists>out. create_config_dict cfg styles attrs = Inr out) \<longleftrightarrow> (\<forall>(k, a) \<in> set attrs. cfg a \<noteq> None))"
    using config_items_returns [of cfg styles attrs]
    by (auto simp: create_config_dict_def ebind_def split: sum.splits)
next
  assume r: "create_config_dict cfg styles attrs = Inr out" and m: "(k, v) \<in> set out"
  from r obtain items where i: "config_items cfg styles attrs = Inr items"
    and o: "out = dict_merge [] items"
    by (auto simp: create_config_dict_def ebind_def split: sum.splits)
  from m o dict_merge_set [of "[]" items] have "(k, v) \<in> set items" by auto
  with config_items_set [OF i] show "v \<noteq> VNone" by auto
next
  assume r: "create_config_dict cfg styles attrs = Inr out" and m: "(k, a) \<in> set attrs"
    and s: "map_of styles a = Some v" and v: "v \<noteq> VNone"
  from r obtain items where i: "config_items cfg styles attrs = Inr items"
    and o: "out = dict_merge [] items"
    by (auto simp: create_config_dict_def ebind_def split: sum.splits)
  from config_items_returns [of cfg styles attrs] i m obtain dv where dv: "cfg a = Some dv"
    by auto
  have "dict_get styles a dv = v" using s by (simp add: dict_get_def)
  with config_items_set [OF i] m dv v have "(k, v) \<in> set items" by auto
  moreover have "distinct (map fst (rev items))"
    using config_items_keys [OF i d] by (simp add: rev_map [symmetric])
  ultimately have "map_of (rev items) k = Some v"
    by simp
  then show "map_of out k = Some v"
    by (simp add: o dict_merge_map_of)
qed


lemma style_builders_cases:
  assumes "(build, attrs) \<in> set (style_builders cfg h)"
  shows "build = (\<lambda>s. create_config_dict cfg s attrs) \<and> distinct (map fst attrs)"
proof -
  from assms consider
      "build = get_line_style cfg" "attrs = line_config_attrs"
    | "build = (\<lambda>s. get_bar_style cfg s h)" "attrs = bar_config_attrs h"
    | "build = get_hist_style cfg" "attrs = hist_config_attrs"
    | "build = get_area_style cfg" "attrs = area_config_attrs"
    | "build = get_grid_style cfg" "attrs = grid_config_attrs"
    by (auto simp: style_builders_def)
  then show ?thesis
  proof cases
    case 1
    then show ?thesis by (auto simp: get_line_style_def line_config_attrs_def)
  next
    case 2
    then show ?thesis by (auto simp: get_bar_style_def bar_config_attrs_def)
  next
    case 3
    then show ?thesis by (auto simp: get_hist_style_def hist_config_attrs_def)
  next
    case 4
    then show ?thesis by (auto simp: get_area_style_def area_config_attrs_def)
  next
    case 5
    then show ?thesis by (auto simp: get_grid_style_def grid_config_attrs_def)
  qed
qed

lemma legend_distinct: "distinct (map fst legend_config_attrs)"
  by (simp add: legend_config_attrs_def)

text \<open>
  C4, as stated, fails for the text builder: with nothing configured for the title
  font, its output holds the key \<open>fontsize\<close> with a null value.
\<close>

theorem text_style_null_counterexample:
  "map_of (get_text_style Map.empty ''title'') ''fontsize'' = Some VNone"
  by (simp add: get_text_style_def text_config_attrs_def dict_merge_def config_get_def
      format_type_def)

text \<open>
  C4, amended.  For each of the line, bar, hist, area and grid builders and every
  series style: a mapping the builder returns holds no null value; when the global
  configuration defines every declared path the builder returns a mapping, and if
  moreover the series style supplies a non-null value for every declared pair, every
  declared argument name is in that mapping, with the style's value.  The same holds
  of the legend builder, which takes no series style.  The text builder does no
  filtering: it always returns all five of its keys, each with the value configured for
  the role, else the one configured for the general role, else null.
\<close>

theorem style_builders_filtered:
  assumes "(build, attrs) \<in> set (style_builders cfg h)"
  shows "(\<forall>out. build styles = Inr out \<longrightarrow> (\<forall>(k, v) \<in> set out. v \<noteq> VNone))
       \<and> ((\<forall>(k, a) \<in> set attrs. cfg a \<noteq> None) \<longrightarrow>
            (\<exists>out. build styles = Inr out
               \<and> ((\<forall>(k, a) \<in> set attrs. \<exists>v. map_of styles a = Some v \<and> v \<noteq> VNone)
                    \<longrightarrow> (\<forall>(k, a) \<in> set attrs. map_of out k = map_of styles a))))
       \<and> (\<forall>out. get_legend_style cfg = Inr out \<longrightarrow> (\<forall>(k, v) \<in> set out. v \<noteq> VNone))
       \<and> ((\<forall>(k, a) \<in> set legend_config_attrs. cfg a \<noteq> None) \<longrightarrow>
            (\<exists>out. get_legend_style cfg = Inr out))
       \<and> map fst (get_text_style cfg t) = map fst text_config_attrs
       \<and> (\<forall>(key, attr) \<in> set text_config_attrs.
              map_of (get_text_style cfg t) key
                = Some (config_get cfg (format_type attr t)
                          (config_get cfg (format_type attr ''general'') VNone)))"
proof -
  from style_builders_cases [OF assms]
  have b: "build styles = create_config_dict cfg styles attrs"
    and d: "distinct (map fst attrs)" by simp_all
  have 1: "\<forall>out. build styles = Inr out \<longrightarrow> (\<forall>(k, v) \<in> set out. v \<noteq> VNone)"
    unfolding b using create_config_dict_props(2) [OF d] by blast
  have 2: "\<exists>out. build styles = Inr out
               \<and> ((\<forall>(k, a) \<in> set attrs. \<exists>v. map_of styles a = Some v \<and> v \<noteq> VNone)
                    \<longrightarrow> (\<forall>(k, a) \<in> set attrs. map_of out k = map_of styles a))"
    if c: "\<forall>(k, a) \<in> set attrs. cfg a \<noteq> None"
  proof -
    from create_config_dict_props(1) [OF d, of cfg styles] c
    obtain out where o: "create_config_dict cfg styles attrs = Inr out" by blast
    have "\<forall>(k, a) \<in> set attrs. map_of out k = map_of styles a"
      if "\<forall>(k, a) \<in> set attrs. \<exists>v. map_of styles a = Some v \<and> v \<noteq> VNone"
      using that create_config_dict_props(3) [OF d o] by fastforce
    with o show ?thesis unfolding b by blast
  qed
  have 3: "\<forall>out. get_legend_style cfg = Inr out \<longrightarrow> (\<forall>(k, v) \<in> set out. v \<noteq> VNone)"
    unfolding get_legend_style_def using create_config_dict_props(2) [OF legend_distinct] by blast
  have 4: "(\<forall>(k, a) \<in> set legend_config_attrs. cfg a \<noteq> None) \<longrightarrow>
            (\<exists>out. get_legend_style cfg = Inr out)"
    unfolding get_legend_style_def
    using create_config_dict_props(1) [OF legend_distinct, of cfg "[]"] by blast
  have 5: "map fst (get_text_style cfg t) = map fst text_config_attrs"
    by (simp add: get_text_style_def text_config_attrs_def dict_merge_def)
  have 6: "\<forall>(key, attr) \<in> set text_config_attrs.
              map_of (get_text_style cfg t) key
                = Some (config_get cfg (format_type attr t)
                          (config_get cfg (format_type attr ''general'') VNone))"
    by (simp add: get_text_style_def text_config_attrs_def dict_merge_def)
  from 1 2 3 4 5 6 show ?thesis by blast
qed

theorem style_builders_filtered_witness:
  "(get_grid_style example_config, grid_config_attrs) \<in> set (style_builders example_config False)
   \<and> (\<exists>out. get_grid_style example_config example_style = Inr out
          \<and> (\<forall>(k, v) \<in> set out. v \<noteq> VNone)
          \<and> (\<forall>(k, a) \<in> set grid_config_attrs. map_of out k = map_of example_style a))"
proof -
  have m: "(get_grid_style example_config, grid_config_attrs)
             \<in> set (style_builders example_config False)"
    by (simp add: style_builders_def)
  have c: "\<forall>(k, a) \<in> set grid_config_attrs. example_config a \<noteq> None"
    by (simp add: grid_config_attrs_def example_config_def)
  have s: "\<forall>(k, a) \<in> set grid_config_attrs. \<exists>v. map_of example_style a = Some v \<and> v \<noteq> VNone"
    by (simp add: grid_config_attrs_def example_style_def)
  note T = style_builders_filtered [OF m, of example_style]
  from T [THEN conjunct2, THEN conjunct1] c s
  obtain out where o: "get_grid_style example_config example_style = Inr out"
    and a: "\<forall>(k, a) \<in> set grid_config_attrs. map_of out k = map_of example_style a"
    by blast
  from T [THEN conjunct1] o
  have n: "\<forall>(k, v) \<in> set out. v \<noteq> VNone"
    by blast
  from o n a have "\<exists>out. get_grid_style example_config example_style = Inr out
          \<and> (\<forall>(k, v) \<in> set out. v \<noteq> VNone)
          \<and> (\<forall>(k, a) \<in> set grid_config_attrs. map_of out k = map_of example_style a)"
    by blast
  with m show ?thesis by blast
qed

text \<open>
  C3.  The claim promises the style mapping's value whenever the style has the key.
  With the key in the style and a mapping-like default that lacks it, the code raises
  the missing-key error instead: the default's entry is read first.
\<close>

theorem get_attr_value_eager_default:
  "get_attr_value ''a'' [(''a'', VInt 1)] (Plain (VDict [])) = Inl KeyError
   \<and> get_attr_value ''a'' [(''a'', VInt 1)] (Config Map.empty) = Inl KeyError"
  by (simp add: ebind_def dict_getitem_def config_getitem_def)

text \<open>
  C9.  With a mapping-like default (the configuration object or a dictionary),
  \<open>get_attr_value\<close> reads the default's entry for the key before anything else: when
  the default lacks the key the result is the missing-key error, whether or not the
  style mapping has the key; a value is returned only when the default maps the key,
  and then it is the style's value where the style has the key.
\<close>

theorem get_attr_value_default_first:
  "(c attr = None \<longrightarrow> get_attr_value attr obj (Config c) = Inl KeyError)
   \<and> (map_of kvs attr = None \<longrightarrow> get_attr_value attr obj (Plain (VDict kvs)) = Inl KeyError)
   \<and> (\<forall>v. get_attr_value attr obj (Config c) = Inr v
          \<longrightarrow> (\<exists>d. c attr = Some d \<and> v = dict_get obj attr d))
   \<and> (\<forall>v. get_attr_value attr obj (Plain (VDict kvs)) = Inr v
          \<longrightarrow> (\<exists>d. map_of kvs attr = Some d \<and> v = dict_get obj attr d))
   \<and> (\<forall>d v. c attr = Some d \<and> map_of obj attr = Some v
          \<longrightarrow> get_attr_value attr obj (Config c) = Inr v)
   \<and> (\<forall>d v. map_of kvs attr = Some d \<and> map_of obj attr = Some v
          \<longrightarrow> get_attr_value attr obj (Plain (VDict kvs)) = Inr v)"
  by (auto simp: get_attr_value_config get_attr_value_dict dict_get_def
      simp del: get_attr_value.simps split: option.splits)

theorem get_attr_value_default_first_witness:
  "map_of [(''a'', VInt 1)] ''a'' = Some (VInt 1)
   \<and> get_attr_value ''a'' [(''a'', VInt 1)] (Plain (VDict [(''b'', VInt 2)])) = Inl KeyError
   \<and> get_attr_value ''a'' [(''a'', VInt 1)] (Config (Map.empty(''b'' \<mapsto> VInt 2))) = Inl KeyError
   \<and> get_attr_value ''a'' [(''a'', VInt 1)] (Plain (VDict [(''a'', VInt 2)])) = Inr (VInt 1)
   \<and> get_attr_value ''a'' [(''a'', VInt 1)] (Config (Map.empty(''a'' \<mapsto> VInt 2))) = Inr (VInt 1)"
  using get_attr_value_default_first
      [of "Map.empty(''b'' \<mapsto> VInt 2)" "''a''" "[(''a'', VInt 1)]" "[(''b'', VInt 2)]"]
    get_attr_value_default_first
      [of "Map.empty(''a'' \<mapsto> VInt 2)" "''a''" "[(''a'', VInt 1)]" "[(''a'', VInt 2)]"]
  by simp

subsection \<open>Tick positions\<close>

lemma configure_axis_ticks_body_policy:
  assumes "dict_get chart t VNone = opt_list ts" and "dict_get chart l VNone = opt_list ls"
  shows "configure_axis_ticks_body ax chart (t, l, a)
           = (tick_policy_spec (if a = ''xaxis'' then SetXTicks ax else SetYTicks ax) t l ts ls,
              None)"
  using assms
  by (cases ts; cases ls)
     (simp_all add: configure_axis_ticks_body_def tick_policy_spec_def opt_list_def Let_def)

text \<open>
  C7.  For a chart whose tick positions and tick labels are each absent (or \<open>None\<close>)
  or a sequence, \<open>configure_axis_ticks_position\<close> treats the x axis and then the y
  axis by the policy of the spec: positions without labels set the ticks only; positions
  and labels of equal length set both; with different lengths a warning is issued and
  the ticks only are set; labels without positions give a warning and no call for that
  axis; nothing given gives nothing.  No exception is raised.
\<close>

theorem configure_axis_ticks_position_policy:
  assumes "dict_get chart ''xticks'' VNone = opt_list xt"
    and "dict_get chart ''xticklabels'' VNone = opt_list xl"
    and "dict_get chart ''yticks'' VNone = opt_list yt"
    and "dict_get chart ''yticklabels'' VNone = opt_list yl"
  shows "configure_axis_ticks_position ax chart
           = (tick_policy_spec (SetXTicks ax) ''xticks'' ''xticklabels'' xt xl
              @ tick_policy_spec (SetYTicks ax) ''yticks'' ''yticklabels'' yt yl, None)"
proof -
  have x: "configure_axis_ticks_body ax chart (''xticks'', ''xticklabels'', ''xaxis'')
             = (tick_policy_spec (SetXTicks ax) ''xticks'' ''xticklabels'' xt xl, None)"
    using configure_axis_ticks_body_policy [OF assms(1) assms(2), of ax "''xaxis''"] by simp
  have y: "configure_axis_ticks_body ax chart (''yticks'', ''yticklabels'', ''yaxis'')
             = (tick_policy_spec (SetYTicks ax) ''yticks'' ''yticklabels'' yt yl, None)"
    using configure_axis_ticks_body_policy [OF assms(3) assms(4), of ax "''yaxis''"] by simp
  show ?thesis
    by (simp add: configure_axis_ticks_position_def tick_attrs_def x y)
qed

theorem configure_axis_ticks_position_policy_witness:
  "configure_axis_ticks_position 0
     [(''xticks'', VList [VInt 1, VInt 2, VInt 3]),
      (''xticklabels'', VList [VStr ''a'', VStr ''b'']),
      (''yticklabels'', VList [VStr ''a''])]
   = ([Warn (ticks_length_msg ''xticks'' ''xticklabels''),
       SetXTicks 0 (VList [VInt 1, VInt 2, VInt 3]) None,
       Warn (ticks_missing_msg ''yticks'' ''yticklabels'')], None)
   \<and> configure_axis_ticks_position 0
     [(''xticks'', VList [VInt 1, VInt 2]),
      (''xticklabels'', VList [VStr ''a'', VStr ''b'']),
      (''yticks'', VList [VInt 5])]
   = ([SetXTicks 0 (VList [VInt 1, VInt 2]) (Some (VList [VStr ''a'', VStr ''b''])),
       SetYTicks 0 (VList [VInt 5]) None], None)"
  using configure_axis_ticks_position_policy
      [of "[(''xticks'', VList [VInt 1, VInt 2, VInt 3]),
            (''xticklabels'', VList [VStr ''a'', VStr ''b'']),
            (''yticklabels'', VList [VStr ''a''])]"
          "Some [VInt 1, VInt 2, VInt 3]" "Some [VStr ''a'', VStr ''b'']" None "Some [VStr ''a'']" 0]
    configure_axis_ticks_position_policy
      [of "[(''xticks'', VList [VInt 1, VInt 2]),
            (''xticklabels'', VList [VStr ''a'', VStr ''b'']),
            (''yticks'', VList [VInt 5])]"
          "Some [VInt 1, VInt 2]" "Some [VStr ''a'', VStr ''b'']" "Some [VInt 5]" None 0]
  by (simp add: dict_get_def opt_list_def tick_policy_spec_def)

subsection \<open>Drawing-config check\<close>





subsection \<open>Series hash and color assignment\<close>

lemma distinct_keys_mset:
  assumes "mset ys = mset xs" and "distinct (map fst xs)"
  shows "distinct (map fst ys)"
proof -
  have "mset (map fst ys) = mset (map fst xs)"
    using assms(1) by (metis mset_map)
  then show ?thesis
    using assms(2) by (metis mset_eq_imp_distinct_iff)
qed

lemma map_of_reordered:
  assumes "distinct (map fst xs)" and "mset ys = mset xs"
  shows "map_of ys = map_of xs"
proof -
  have "distinct (map fst ys)" using distinct_keys_mset [OF assms(2) assms(1)] .
  moreover have "set ys = set xs" using assms(2) by (rule mset_eq_setD)
  ultimately show ?thesis using assms(1) by (simp add: map_of_inject_set)
qed

lemma sorted_keys_unique:
  assumes "mset (map fst ys) = mset (map fst (xs :: (string \<times> 'a) list))"
  shows "map fst (sort_key fst ys) = map fst (sort_key fst xs)"
proof -
  have a: "image_mset fst (mset ys) = image_mset fst (mset xs)"
    using assms by simp
  have "sort (map fst xs) = map fst (sort_key fst ys)"
    by (rule properties_for_sort) (simp_all add: a)
  moreover have "sort (map fst xs) = map fst (sort_key fst xs)"
    by (rule properties_for_sort) simp_all
  ultimately show ?thesis by simp
qed

lemma json_dumps_same_content:
  assumes "same_content v v'"
  shows "json_dumps enc v = json_dumps enc v'"
  using assms
proof (induction rule: same_content.induct)
  case (same v)
  show ?case by simp
next
  case (seq xs ys)
  then have "list_all2 (\<lambda>x y. json_dumps enc x = json_dumps enc y) xs ys"
    by (simp add: list_all2_conv_all_nth)
  then have "map (json_dumps enc) xs = map (json_dumps enc) ys"
    by (simp add: list_all2_conv_all_nth list_eq_iff_nth_eq)
  then show ?case by simp
next
  case (reordered kvs kvs')
  let ?S = "sort_key fst kvs" and ?S' = "sort_key fst kvs'"
  let ?g = "\<lambda>(k, v). enc k @ '': '' @ json_dumps enc v"
  have keys: "map fst ?S = map fst ?S'"
    using sorted_keys_unique [OF reordered(2)] by simp
  then have len: "length ?S = length ?S'"
    by (metis length_map)
  have "?g (?S ! i) = ?g (?S' ! i)" if i: "i < length ?S" for i
  proof -
    obtain k v where a: "?S ! i = (k, v)" by (cases "?S ! i")
    obtain k' v' where b: "?S' ! i = (k', v')" by (cases "?S' ! i")
    have "fst (?S ! i) = fst (?S' ! i)"
      using keys i len by (metis nth_map)
    with a b have kk: "k' = k" by simp
    have "(k, v) \<in> set ?S" using a i by (metis nth_mem)
    then have m: "(k, v) \<in> set kvs" by simp
    have "(k, v') \<in> set ?S'" using b kk i len by (metis nth_mem)
    then have m': "(k, v') \<in> set kvs'" by simp
    from reordered(3) m m' have "json_dumps enc v = json_dumps enc v'" by blast
    with a b kk show ?thesis by simp
  qed
  then have "map ?g ?S = map ?g ?S'"
    using len by (simp add: list_eq_iff_nth_eq)
  then show ?case by simp
qed

lemma same_content_reordered:
  assumes "distinct (map fst xs)" and "mset ys = mset xs"
  shows "same_content (VDict xs) (VDict ys)"
proof (rule same_content.reordered)
  show "distinct (map fst xs)" by (rule assms(1))
next
  show "mset (map fst ys) = mset (map fst xs)"
    using assms(2) by (metis mset_map)
next
  have "map_of ys = map_of xs" by (rule map_of_reordered [OF assms])
  moreover have dy: "distinct (map fst ys)" by (rule distinct_keys_mset [OF assms(2) assms(1)])
  ultimately have "v = v'" if "(k, v) \<in> set xs" and "(k, v') \<in> set ys" for k v v'
    using that assms(1) by (metis map_of_is_SomeI option.inject)
  then show "\<forall>k v v'. (k, v) \<in> set xs \<longrightarrow> (k, v') \<in> set ys \<longrightarrow> same_content v v'"
    by (auto intro: same_content.same)
qed


subsection \<open>The histogram drawer\<close>

lemma for_each_effect:
  "e \<in> set (fst (for_each body xs)) \<Longrightarrow> \<exists>x \<in> set xs. e \<in> set (fst (body x))"
proof (induction xs)
  case Nil
  then show ?case by simp
next
  case (Cons x xs)
  then show ?case
    by (auto split: prod.splits option.splits)
qed

lemma assert_chart_config_no_hist: "Hist h \<notin> set (assert_chart_config cc supported)"
  by (induction cc) auto



lemma draw_hist_chart_cases:
  assumes "Hist h \<in> set (fst (draw_hist_chart env cfg axes charts cc))"
  obtains x_all stacked bins a color_cycle where
    "emap (get_chart_data ''x'') charts = Inr x_all"
    and "np_hstack env x_all = Inr stacked"
    and "np_histogram_edges env stacked (dict_get cc ''n_bins'' (VInt 20)) = Inr bins"
    and "dict_getitem cc ''as_subplots'' = Inr a"
    and "custom_color_cycle env cfg a (int (length charts)) = Inr color_cycle"
    and "Hist h \<in> set (fst (if \<not> truthy a then
             draw_hist_shared env axes charts cc
               (dict_get cc ''orientation'' (VStr ''vertical'')) x_all bins color_cycle
           else
             for_each
               (draw_hist_subplot_body env cc
                  (dict_get cc ''orientation'' (VStr ''vertical'')) bins color_cycle)
               (zip charts axes)))"
  using assms assert_chart_config_no_hist [of h cc hist_supported]
  unfolding draw_hist_chart_def Let_def
  by (auto split: sum.splits prod.splits if_splits)

lemma draw_hist_subplot_body_call:
  assumes "Hist h \<in> set (fst (draw_hist_subplot_body env cc orientation bins color_cycle ca))"
  shows "hc_bins h = bins \<and> hc_ax h = snd ca \<and> get_chart_data ''x'' (fst ca) = Inr (hc_x h)"
  using assms unfolding draw_hist_subplot_body_def Let_def
  by (auto split: sum.splits if_splits)

lemma draw_hist_shared_call:
  assumes "Hist h \<in> set (fst (draw_hist_shared env axes charts cc orientation x_all bins color_cycle))"
  obtains c0 rest ax0 axs b0 hcs colors where
    "charts = c0 # rest" and "axes = ax0 # axs"
    and "get_hist_config env (dict_get c0 ''style'' (VDict [])) = Inr b0"
    and "emap (series_hist_config env color_cycle) charts = Inr hcs"
    and "emap (\<lambda>c. dict_getitem c ''color'') hcs = Inr colors"
    and "h = \<lparr>hc_ax = ax0, hc_x = VList x_all, hc_bins = bins,
              hc_density = None, hc_cumulative = None,
              hc_orientation = orientation, hc_stacked = VBool True,
              hc_kwargs =
                dict_merge (dict_merge (color_cycle (chart_hash env c0)) b0)
                  [(''color'', if count_list colors VNone > 0 then VNone else VList colors)]\<rparr>"
proof -
  from assms obtain hcs where hcs: "emap (series_hist_config env color_cycle) charts = Inr hcs"
    unfolding draw_hist_shared_def by (auto split: sum.splits)
  from assms hcs obtain colors where colors: "emap (\<lambda>c. dict_getitem c ''color'') hcs = Inr colors"
    unfolding draw_hist_shared_def by (auto split: sum.splits)
  from assms hcs colors obtain hc0 hcr where hc: "hcs = hc0 # hcr"
    unfolding draw_hist_shared_def by (auto split: list.splits)
  from assms hcs colors hc obtain ax0 axs where ax: "axes = ax0 # axs"
    unfolding draw_hist_shared_def by (auto split: list.splits)
  from hcs hc obtain c0 rest where ch: "charts = c0 # rest"
    by (cases charts) auto
  from hcs hc ch obtain b0 where b0: "get_hist_config env (dict_get c0 ''style'' (VDict [])) = Inr b0"
    and hc0: "hc0 = dict_merge (color_cycle (chart_hash env c0)) b0"
    by (auto simp: series_hist_config_def ebind_def split: sum.splits)
  from assms hcs colors hc ax ch
  have "h = \<lparr>hc_ax = ax0, hc_x = VList x_all, hc_bins = bins,
              hc_density = None, hc_cumulative = None,
              hc_orientation = orientation, hc_stacked = VBool True,
              hc_kwargs =
                dict_merge hc0
                  [(''color'', if count_list colors VNone > 0 then VNone else VList colors)]\<rparr>"
    unfolding draw_hist_shared_def Let_def
    by (auto split: sum.splits if_splits)
  with that ch ax b0 hcs colors hc0 show thesis by blast
qed

lemma draw_hist_chart_bins:
  assumes "Hist h \<in> set (fst (draw_hist_chart env cfg axes charts cc))"
  shows "\<exists>x_all stacked. emap (get_chart_data ''x'') charts = Inr x_all
           \<and> np_hstack env x_all = Inr stacked
           \<and> np_histogram_edges env stacked (dict_get cc ''n_bins'' (VInt 20)) = Inr (hc_bins h)"
proof -
  from assms obtain x_all stacked bins a color_cycle where
    x: "emap (get_chart_data ''x'') charts = Inr x_all"
    and s: "np_hstack env x_all = Inr stacked"
    and b: "np_histogram_edges env stacked (dict_get cc ''n_bins'' (VInt 20)) = Inr bins"
    and h: "Hist h \<in> set (fst (if \<not> truthy a then
             draw_hist_shared env axes charts cc
               (dict_get cc ''orientation'' (VStr ''vertical'')) x_all bins color_cycle
           else
             for_each
               (draw_hist_subplot_body env cc
                  (dict_get cc ''orientation'' (VStr ''vertical'')) bins color_cycle)
               (zip charts axes)))"
    by (rule draw_hist_chart_cases)
  have "hc_bins h = bins"
  proof (cases "truthy a")
    case False
    with h have "Hist h \<in> set (fst (draw_hist_shared env axes charts cc
               (dict_get cc ''orientation'' (VStr ''vertical'')) x_all bins color_cycle))"
      by simp
    then show ?thesis by (rule draw_hist_shared_call) simp
  next
    case True
    with h have "Hist h \<in> set (fst (for_each
               (draw_hist_subplot_body env cc
                  (dict_get cc ''orientation'' (VStr ''vertical'')) bins color_cycle)
               (zip charts axes)))"
      by simp
    from for_each_effect [OF this] draw_hist_subplot_body_call show ?thesis by blast
  qed
  with x s b show ?thesis by blast
qed








subsection \<open>A run of the histogram drawer on the two sample series\<close>

lemma series_a_x: "get_chart_data ''x'' series_a = Inr (VList [VInt 1, VInt 2])"
  by (simp add: get_chart_data_def series_a_def ebind_def dict_get_def dict_getitem_def)

lemma series_b_x: "get_chart_data ''x'' series_b = Inr (VList [VInt 3])"
  by (simp add: get_chart_data_def series_b_def ebind_def dict_get_def dict_getitem_def)

lemma example_env_sel:
  "get_hist_config example_env (VDict d) = get_hist_style hist_config_sample d"
  "np_hstack example_env xs = Inr (VList xs)"
  "np_histogram_edges example_env a b = Inr (VList [a, b])"
  "create_color_cycle example_env = (\<lambda>name n h. [(''color'', VList [name, VInt (h mod n)])])"
  by (simp_all add: example_env_def)

lemma series_a_style:
  "get_hist_style hist_config_sample [(''plot.hist.alpha'', VInt 3)]
     = Inr [(''alpha'', VInt 3), (''fill'', VBool True), (''zorder'', VInt 2),
            (''histtype'', VStr ''bar''), (''align'', VStr ''mid''), (''linewidth'', VInt 1)]"
  by (simp add: get_hist_style_def create_config_dict_def hist_config_attrs_def
      hist_config_sample_def ebind_def config_getitem_def dict_get_def dict_merge_def)

lemma series_b_style:
  "get_hist_style hist_config_sample
       [(''plot.hist.color'', VStr ''red''), (''plot.hist.hatch'', VStr ''/'')]
     = Inr [(''color'', VStr ''red''), (''alpha'', VInt 1), (''fill'', VBool True),
            (''hatch'', VStr ''/''), (''zorder'', VInt 2), (''histtype'', VStr ''bar''),
            (''align'', VStr ''mid''), (''linewidth'', VInt 1)]"
  by (simp add: get_hist_style_def create_config_dict_def hist_config_attrs_def
      hist_config_sample_def ebind_def config_getitem_def dict_get_def dict_merge_def)

lemma series_a_config:
  "series_hist_config example_env cy series_a
     = Inr (dict_merge (cy (chart_hash example_env series_a))
         [(''alpha'', VInt 3), (''fill'', VBool True), (''zorder'', VInt 2),
          (''histtype'', VStr ''bar''), (''align'', VStr ''mid''), (''linewidth'', VInt 1)])"
proof -
  have "dict_get series_a ''style'' (VDict []) = VDict [(''plot.hist.alpha'', VInt 3)]"
    by (simp add: series_a_def dict_get_def)
  then show ?thesis
    by (simp add: series_hist_config_def example_env_sel series_a_style ebind_def)
qed

lemma series_b_config:
  "series_hist_config example_env cy series_b
     = Inr (dict_merge (cy (chart_hash example_env series_b))
         [(''color'', VStr ''red''), (''alpha'', VInt 1), (''fill'', VBool True),
          (''hatch'', VStr ''/''), (''zorder'', VInt 2), (''histtype'', VStr ''bar''),
          (''align'', VStr ''mid''), (''linewidth'', VInt 1)])"
proof -
  have "dict_get series_b ''style'' (VDict [])
          = VDict [(''plot.hist.color'', VStr ''red''), (''plot.hist.hatch'', VStr ''/'')]"
    by (simp add: series_b_def dict_get_def)
  then show ?thesis
    by (simp add: series_hist_config_def example_env_sel series_b_style ebind_def)
qed

lemma wrapper_default_config:
  "chart_wrapper_chart_config []
     = [(''as_subplots'', VBool False), (''grid'', VNone), (''yerr'', VNone),
        (''area'', VNone), (''orientation'', VNone), (''n_bins'', VNone)]"
  by (simp add: chart_wrapper_chart_config_def dict_get_def)

lemma sample_shared_run:
  "draw_hist_chart example_env hist_config_sample [0, 0] [series_a, series_b]
     (chart_wrapper_chart_config [])
   = ([Hist sample_call], None)"
proof -
  have cy: "custom_color_cycle example_env hist_config_sample (VBool False) 2
              = Inr (\<lambda>h. [(''color'', VList [VStr ''Set1'', VInt (h mod 2)])])"
    by (simp add: custom_color_cycle_def example_env_sel hist_config_sample_def ebind_def
        config_getitem_def)
  show ?thesis
    unfolding wrapper_default_config draw_hist_chart_def sample_call_def
    by (simp add: hist_supported_def series_a_x series_b_x example_env_sel dict_get_def
        dict_getitem_def cy draw_hist_shared_def series_a_config series_b_config dict_merge_def)
qed

text \<open>
  C5.  Every histogram call of a run, in either mode, uses the one bin-edge set computed
  from the stacked primary data of all series.  The bin count handed to that
  computation is the \<open>n_bins\<close> entry of the drawing config, 20 only when the key is
  absent (lemma \<open>draw_hist_chart_bins\<close>).  The drawing config that \<open>chart_wrapper\<close>
  assembles always has the key, so when the top-level attributes configure no bin
  count the computation receives \<open>None\<close>, not 20.
\<close>

theorem hist_bins_through_wrapper:
  assumes "Hist h \<in> set (fst (draw_hist_chart env cfg axes charts
                                 (chart_wrapper_chart_config attrs)))"
  shows "\<exists>x_all stacked. emap (get_chart_data ''x'') charts = Inr x_all
           \<and> np_hstack env x_all = Inr stacked
           \<and> np_histogram_edges env stacked (dict_get attrs ''n_bins'' VNone) = Inr (hc_bins h)"
proof -
  have "dict_get (chart_wrapper_chart_config attrs) ''n_bins'' (VInt 20)
          = dict_get attrs ''n_bins'' VNone"
    by (simp add: chart_wrapper_chart_config_def dict_get_def)
  with draw_hist_chart_bins [OF assms] show ?thesis by simp
qed

theorem hist_bins_through_wrapper_witness:
  "Hist sample_call \<in> set (fst (draw_hist_chart example_env hist_config_sample [0, 0]
                                   [series_a, series_b] (chart_wrapper_chart_config [])))
   \<and> map_of [] ''n_bins'' = None
   \<and> np_histogram_edges example_env (VList [VList [VInt 1, VInt 2], VList [VInt 3]]) VNone
       = Inr (hc_bins sample_call)
   \<and> np_histogram_edges example_env (VList [VList [VInt 1, VInt 2], VList [VInt 3]]) (VInt 20)
       \<noteq> Inr (hc_bins sample_call)"
proof -
  have m: "Hist sample_call \<in> set (fst (draw_hist_chart example_env hist_config_sample [0, 0]
                                   [series_a, series_b] (chart_wrapper_chart_config [])))"
    by (simp add: sample_shared_run)
  from hist_bins_through_wrapper [OF m] obtain x_all stacked where
    x: "emap (get_chart_data ''x'') [series_a, series_b] = Inr x_all"
    and s: "np_hstack example_env x_all = Inr stacked"
    and b: "np_histogram_edges example_env stacked (dict_get [] ''n_bins'' VNone)
              = Inr (hc_bins sample_call)"
    by blast
  from x have "x_all = [VList [VInt 1, VInt 2], VList [VInt 3]]"
    by (simp add: series_a_x series_b_x)
  with s have "stacked = VList [VList [VInt 1, VInt 2], VList [VInt 3]]"
    by (simp add: example_env_sel)
  with b have "np_histogram_edges example_env (VList [VList [VInt 1, VInt 2], VList [VInt 3]]) VNone
       = Inr (hc_bins sample_call)"
    by (simp add: dict_get_def)
  with m show ?thesis
    by (simp add: example_env_sel sample_call_def)
qed


subsection \<open>Color assignment across draw calls\<close>

lemma draw_hist_subplot_body_kwargs:
  assumes "Hist h \<in> set (fst (draw_hist_subplot_body env cc orientation bins color_cycle ca))"
  shows "\<exists>b. get_hist_config env (dict_get (fst ca) ''style'' (VDict [])) = Inr b
           \<and> hc_kwargs h = dict_merge (color_cycle (chart_hash env (fst ca))) b"
  using assms unfolding draw_hist_subplot_body_def Let_def
  by (auto split: sum.splits if_splits)

lemma draw_hist_chart_subplot_color:
  assumes sub: "dict_getitem cc ''as_subplots'' = Inr a" and t: "truthy a"
    and h: "Hist h \<in> set (fst (draw_hist_chart env cfg axes charts cc))"
  shows "\<exists>c b col. c \<in> set charts
           \<and> series_color env cfg a (int (length charts)) c = Inr col
           \<and> get_hist_config env (dict_get c ''style'' (VDict [])) = Inr b
           \<and> hc_kwargs h = dict_merge col b"
proof -
  from h obtain x_all stacked bins a' color_cycle where
    a': "dict_getitem cc ''as_subplots'' = Inr a'"
    and cy: "custom_color_cycle env cfg a' (int (length charts)) = Inr color_cycle"
    and hh: "Hist h \<in> set (fst (if \<not> truthy a' then
             draw_hist_shared env axes charts cc
               (dict_get cc ''orientation'' (VStr ''vertical'')) x_all bins color_cycle
           else
             for_each
               (draw_hist_subplot_body env cc
                  (dict_get cc ''orientation'' (VStr ''vertical'')) bins color_cycle)
               (zip charts axes)))"
    by (rule draw_hist_chart_cases)
  from a' sub have aa: "a' = a" by simp
  from hh t aa have "Hist h \<in> set (fst (for_each
               (draw_hist_subplot_body env cc
                  (dict_get cc ''orientation'' (VStr ''vertical'')) bins color_cycle)
               (zip charts axes)))"
    by simp
  from for_each_effect [OF this] obtain ca where
    ca: "ca \<in> set (zip charts axes)"
    and b: "Hist h \<in> set (fst (draw_hist_subplot_body env cc
                  (dict_get cc ''orientation'' (VStr ''vertical'')) bins color_cycle ca))"
    by blast
  have m: "fst ca \<in> set charts"
    using ca set_zip_leftD [of "fst ca" "snd ca" charts axes] by simp
  from draw_hist_subplot_body_kwargs [OF b] obtain bb where
    g: "get_hist_config env (dict_get (fst ca) ''style'' (VDict [])) = Inr bb"
    and k: "hc_kwargs h = dict_merge (color_cycle (chart_hash env (fst ca))) bb"
    by blast
  have "series_color env cfg a (int (length charts)) (fst ca)
          = Inr (color_cycle (chart_hash env (fst ca)))"
    using cy aa by (simp add: series_color_def ebind_def)
  with m g k show ?thesis by blast
qed

text \<open>
  C6, as stated, fails: the color cycle is built per draw call from the mode and the
  series count.  With the sample color cycle, the one series \<open>series_a\<close> is assigned
  three different colors in three draw calls: alone in subplot mode, and in shared-axis
  mode among two and among three series.
\<close>

theorem color_assignment_across_calls_counterexample:
  "series_color example_env hist_config_sample (VBool True) 1 series_a
     = Inr [(''color'', VList [VStr ''blue'', VInt 0])]
   \<and> series_color example_env hist_config_sample (VBool False) 2 series_a
     = Inr [(''color'', VList [VStr ''Set1'', VInt 1])]
   \<and> series_color example_env hist_config_sample (VBool False) 3 series_a
     = Inr [(''color'', VList [VStr ''Set1'', VInt 2])]"
proof -
  have h: "chart_hash example_env series_a = 65"
    by (simp add: chart_hash_def example_env_def series_a_def show_int_def)
  show ?thesis
    by (simp add: series_color_def custom_color_cycle_def example_env_sel hist_config_sample_def
        ebind_def config_getitem_def h)
qed

text \<open>
  C6, amended.  Within one process (one hash function), for draw calls with the same
  mode, the same number of series and the same configuration: two series
  specifications with the same content are assigned the same color, and the order of
  the keys, at any depth of the specification, does not matter.  The assignment is the
  entry of the call's color cycle at the hash of the serialization of the whole
  specification with sorted keys; the histogram drawer in subplot mode overlays the
  built hist style of the series on exactly that entry.  When only the keys of the
  specification itself are reordered, the whole resolved histogram style of the series
  is unchanged.
\<close>

theorem color_assignment_order_independent:
  assumes "same_content (VDict chart) (VDict chart')"
  shows "json_dumps enc (VDict chart') = json_dumps enc (VDict chart)
       \<and> chart_hash env chart = str_hash env (json_dumps (json_str env) (VDict chart))
       \<and> chart_hash env chart' = chart_hash env chart
       \<and> series_color env cfg as_subplots n_charts chart'
           = series_color env cfg as_subplots n_charts chart
       \<and> (\<forall>cycle. custom_color_cycle env cfg as_subplots n_charts = Inr cycle
              \<longrightarrow> series_color env cfg as_subplots n_charts chart
                    = Inr (cycle (str_hash env (json_dumps (json_str env) (VDict chart)))))
       \<and> (\<forall>e. custom_color_cycle env cfg as_subplots n_charts = Inl e
              \<longrightarrow> series_color env cfg as_subplots n_charts chart = Inl e)
       \<and> (distinct (map fst chart) \<and> mset chart' = mset chart
              \<longrightarrow> series_hist_config env color_cycle chart'
                    = series_hist_config env color_cycle chart)
       \<and> (\<forall>cc a axes charts h.
              dict_getitem cc ''as_subplots'' = Inr a \<and> truthy a
              \<and> Hist h \<in> set (fst (draw_hist_chart env cfg axes charts cc))
              \<longrightarrow> (\<exists>c b col. c \<in> set charts
                     \<and> series_color env cfg a (int (length charts)) c = Inr col
                     \<and> get_hist_config env (dict_get c ''style'' (VDict [])) = Inr b
                     \<and> hc_kwargs h = dict_merge col b))"
proof -
  have j: "json_dumps enc (VDict chart') = json_dumps enc (VDict chart)" for enc
    using json_dumps_same_content [OF assms, of enc] by simp
  have d: "chart_hash env chart = str_hash env (json_dumps (json_str env) (VDict chart))"
    by (simp only: chart_hash_def)
  have h: "chart_hash env chart' = chart_hash env chart"
    by (simp only: chart_hash_def j)
  have c: "series_color env cfg as_subplots n_charts chart'
             = series_color env cfg as_subplots n_charts chart"
    by (simp only: series_color_def h)
  have v: "\<forall>cycle. custom_color_cycle env cfg as_subplots n_charts = Inr cycle
              \<longrightarrow> series_color env cfg as_subplots n_charts chart
                    = Inr (cycle (str_hash env (json_dumps (json_str env) (VDict chart))))"
    by (simp add: series_color_def ebind_def chart_hash_def)
  have e: "\<forall>e. custom_color_cycle env cfg as_subplots n_charts = Inl e
              \<longrightarrow> series_color env cfg as_subplots n_charts chart = Inl e"
    by (simp add: series_color_def ebind_def)
  have s: "distinct (map fst chart) \<and> mset chart' = mset chart
              \<longrightarrow> series_hist_config env color_cycle chart'
                    = series_hist_config env color_cycle chart"
  proof
    assume p: "distinct (map fst chart) \<and> mset chart' = mset chart"
    then have "map_of chart' = map_of chart" by (simp add: map_of_reordered)
    then have "dict_get chart' ''style'' (VDict []) = dict_get chart ''style'' (VDict [])"
      by (simp add: dict_get_def)
    then show "series_hist_config env color_cycle chart'
                 = series_hist_config env color_cycle chart"
      by (simp add: series_hist_config_def h)
  qed
  have t: "\<forall>cc a axes charts h.
              dict_getitem cc ''as_subplots'' = Inr a \<and> truthy a
              \<and> Hist h \<in> set (fst (draw_hist_chart env cfg axes charts cc))
              \<longrightarrow> (\<exists>c b col. c \<in> set charts
                     \<and> series_color env cfg a (int (length charts)) c = Inr col
                     \<and> get_hist_config env (dict_get c ''style'' (VDict [])) = Inr b
                     \<and> hc_kwargs h = dict_merge col b)"
    using draw_hist_chart_subplot_color by blast
  from j d h c v e s t show ?thesis by (intro conjI)
qed

theorem color_assignment_order_independent_witness:
  "same_content (VDict series_a) (VDict series_a_reordered)
   \<and> series_a_reordered \<noteq> series_a
   \<and> chart_hash example_env series_a_reordered = chart_hash example_env series_a
   \<and> chart_hash example_env series_a = 65
   \<and> chart_hash example_env series_b = 81
   \<and> series_color example_env hist_config_sample (VBool False) 2 series_a_reordered
       = series_color example_env hist_config_sample (VBool False) 2 series_a
   \<and> series_color example_env hist_config_sample (VBool False) 2 series_a
       = Inr [(''color'', VList [VStr ''Set1'', VInt 1])]"
proof -
  have d: "same_content (VDict [(''x'', VList [VInt 1, VInt 2]), (''w'', VList [])])
             (VDict [(''w'', VList []), (''x'', VList [VInt 1, VInt 2])])"
    by (rule same_content_reordered) simp_all
  have s: "same_content (VDict series_a) (VDict series_a_reordered)"
    unfolding series_a_def series_a_reordered_def
  proof (rule same_content.reordered)
    show "distinct (map fst [(''data'', VDict [(''x'', VList [VInt 1, VInt 2]), (''w'', VList [])]),
             (''style'', VDict [(''plot.hist.alpha'', VInt 3)])])"
      by simp
    show "mset (map fst [(''style'', VDict [(''plot.hist.alpha'', VInt 3)]),
             (''data'', VDict [(''w'', VList []), (''x'', VList [VInt 1, VInt 2])])])
          = mset (map fst [(''data'', VDict [(''x'', VList [VInt 1, VInt 2]), (''w'', VList [])]),
             (''style'', VDict [(''plot.hist.alpha'', VInt 3)])])"
      by simp
    show "\<forall>k v v'.
            (k, v) \<in> set [(''data'', VDict [(''x'', VList [VInt 1, VInt 2]), (''w'', VList [])]),
                           (''style'', VDict [(''plot.hist.alpha'', VInt 3)])]
            \<longrightarrow> (k, v') \<in> set [(''style'', VDict [(''plot.hist.alpha'', VInt 3)]),
                           (''data'', VDict [(''w'', VList []), (''x'', VList [VInt 1, VInt 2])])]
            \<longrightarrow> same_content v v'"
      using d by (auto intro: same_content.same)
  qed
  have n: "series_a_reordered \<noteq> series_a"
    by (simp add: series_a_def series_a_reordered_def)
  have ha: "str_hash example_env (json_dumps (json_str example_env) (VDict series_a)) = 65"
    by (simp add: example_env_def series_a_def show_int_def)
  have hb: "chart_hash example_env series_b = 81"
    by (simp add: chart_hash_def example_env_def series_b_def show_int_def)
  have cy: "custom_color_cycle example_env hist_config_sample (VBool False) 2
              = Inr (\<lambda>h. [(''color'', VList [VStr ''Set1'', VInt (h mod 2)])])"
    by (simp add: custom_color_cycle_def example_env_sel hist_config_sample_def ebind_def
        config_getitem_def)
  note T = color_assignment_order_independent
    [OF s, of _ example_env hist_config_sample "VBool False" 2]
  from T have 1: "chart_hash example_env series_a
                    = str_hash example_env (json_dumps (json_str example_env) (VDict series_a))"
    by (rule conjunct2 [THEN conjunct1])
  from T have 2: "chart_hash example_env series_a_reordered = chart_hash example_env series_a"
    by (rule conjunct2 [THEN conjunct2, THEN conjunct1])
  from T have 3: "series_color example_env hist_config_sample (VBool False) 2 series_a_reordered
       = series_color example_env hist_config_sample (VBool False) 2 series_a"
    by (rule conjunct2 [THEN conjunct2, THEN conjunct2, THEN conjunct1])
  from T have "\<forall>cycle. custom_color_cycle example_env hist_config_sample (VBool False) 2 = Inr cycle
              \<longrightarrow> series_color example_env hist_config_sample (VBool False) 2 series_a
                    = Inr (cycle (str_hash example_env
                                    (json_dumps (json_str example_env) (VDict series_a))))"
    by (rule conjunct2 [THEN conjunct2, THEN conjunct2, THEN conjunct2, THEN conjunct1])
  with cy ha have 4: "series_color example_env hist_config_sample (VBool False) 2 series_a
       = Inr [(''color'', VList [VStr ''Set1'', VInt 1])]"
    by simp
  from 1 ha have 5: "chart_hash example_env series_a = 65" by simp
  from s n 2 5 hb 3 4 show ?thesis by (intro conjI)
qed

end
